theory Spec2Isabelle
  imports Complex_Main
begin

section \<open>Strings\<close>

text \<open>
  JavaScript strings are modelled as \<^typ>\<open>string\<close>. A literal of the source that is not
  ASCII is written as the bytes of its UTF-8 encoding. The two string methods the worker
  calls are \<^verbatim>\<open>startsWith\<close> and \<^verbatim>\<open>includes\<close>; both are only ever given an ASCII
  pattern, for which searching the UTF-8 bytes and searching the UTF-16 code units agree.
\<close>

definition startsWith :: "string \<Rightarrow> string \<Rightarrow> bool" where
  "startsWith s p = (take (length p) s = p)"

fun str_includes :: "string \<Rightarrow> string \<Rightarrow> bool" where
  "str_includes [] p = (p = [])"
| "str_includes (c # cs) p = (startsWith (c # cs) p \<or> str_includes cs p)"

section \<open>Constants of the worker\<close>

definition CACHE_VERSION :: string where
  "CACHE_VERSION = ''v1''"

definition CACHE_NAME :: string where
  "CACHE_NAME = ''habit-tracker-'' @ CACHE_VERSION"

definition STATIC_CACHE_URLS :: "string list" where
  "STATIC_CACHE_URLS =
     [''./index.html'',
      ''./manifest.json'',
      ''https://cdn.tailwindcss.com'',
      ''https://cdn.jsdelivr.net/npm/font-awesome@4.7.0/css/font-awesome.min.css'',
      ''https://cdn.jsdelivr.net/npm/chart.js@4.4.8/dist/chart.umd.min.js'']"

section \<open>Requests, responses and promises\<close>

text \<open>
  A URL is kept in the parsed form that \<^verbatim>\<open>new URL(request.url)\<close> recovers. Of a request
  the worker reads the URL, the method and the \<^verbatim>\<open>accept\<close> header;
  \<open>accept q = None\<close> is \<^verbatim>\<open>request.headers.get('accept') === null\<close>. The request of
  a fetch event has the header: the host appends \<^verbatim>\<open>Accept\<close> to a request that lacks
  it before the event is dispatched. A request built from a URL string has none. Header
  names of a response are lower case, as the host's \<^verbatim>\<open>Headers\<close> object keeps them.
\<close>

record URL =
  protocol :: string
  host :: string
  pathname :: string
  search :: string
  hash :: string

record request =
  url :: URL
  req_method :: string
  accept :: "string option"

record response =
  status :: nat
  headers :: "(string \<times> string) list"
  body :: string

datatype js_error = TypeError | SyntaxError | InvalidStateError

text \<open>
  An awaited promise has settled: it is fulfilled with a value or rejected with an error.
  An \<^verbatim>\<open>async function\<close> that throws returns a rejected promise. The value of the two
  strategies is a \<^verbatim>\<open>Response\<close> or \<^verbatim>\<open>undefined\<close>: \<open>response option\<close>.
\<close>

datatype 'a promise = Fulfilled 'a | Rejected js_error

text \<open>
  The network is a parameter: \<^verbatim>\<open>fetch(request)\<close> is fulfilled with the server's
  response (whatever its status) or rejected with a \<^verbatim>\<open>TypeError\<close> when the network
  is unreachable.
\<close>

type_synonym network = "request \<Rightarrow> response promise"

text \<open>
  A request made from a URL string (\<^verbatim>\<open>caches.match('./index.html')\<close>,
  \<^verbatim>\<open>cache.addAll([...])\<close>) is a \<^verbatim>\<open>GET\<close> with no header of its own. The host
  resolves the string against the worker's location; that resolution is the parameter
  \<open>resolve\<close> of the functions below.
\<close>

definition new_Request :: "URL \<Rightarrow> request" where
  "new_Request u = \<lparr>url = u, req_method = ''GET'', accept = None\<rparr>"

section \<open>The host's cache storage\<close>

text \<open>
  \<^verbatim>\<open>caches\<close> is the host's \<^verbatim>\<open>CacheStorage\<close>: named caches in the order of their
  creation, each a list of request/response pairs. The operations follow the Cache
  interface of the Service Worker standard as far as the worker depends on it:
  \<^item> a query matches a stored request when the query is a \<^verbatim>\<open>GET\<close> and the two URLs are
    equal up to the fragment (secondary keys of a \<^verbatim>\<open>Vary\<close> header are not modelled);
  \<^item> \<^verbatim>\<open>caches.match\<close> asks every cache in order and gives the first hit;
  \<^item> \<^verbatim>\<open>caches.open\<close> creates the named cache when there is none;
  \<^item> \<^verbatim>\<open>cache.put\<close> is rejected with a \<^verbatim>\<open>TypeError\<close> unless the request is a
    \<^verbatim>\<open>GET\<close> of an http(s) URL and the response is neither a 206 nor one with
    \<^verbatim>\<open>Vary: *\<close>; an accepted pair replaces the stored pairs its request matches.
  Storage is assumed to have room, and a write to have finished before the next event is
  handled.
\<close>

type_synonym cache = "(request \<times> response) list"

type_synonym cache_storage = "(string \<times> cache) list"

definition same_url :: "URL \<Rightarrow> URL \<Rightarrow> bool" where
  "same_url a b =
     (protocol a = protocol b \<and> host a = host b \<and> pathname a = pathname b \<and> search a = search b)"

definition request_matches :: "request \<Rightarrow> request \<Rightarrow> bool" where
  "request_matches q k = (req_method q = ''GET'' \<and> same_url (url q) (url k))"

fun cache_match :: "cache \<Rightarrow> request \<Rightarrow> response option" where
  "cache_match [] q = None"
| "cache_match ((k, r) # es) q = (if request_matches q k then Some r else cache_match es q)"

fun caches_match :: "cache_storage \<Rightarrow> request \<Rightarrow> response option" where
  "caches_match [] q = None"
| "caches_match ((n, c) # cs) q =
     (case cache_match c q of Some r \<Rightarrow> Some r | None \<Rightarrow> caches_match cs q)"

definition caches_keys :: "cache_storage \<Rightarrow> string list" where
  "caches_keys cs = map fst cs"

definition caches_open :: "string \<Rightarrow> cache_storage \<Rightarrow> cache_storage" where
  "caches_open n cs = (if n \<in> set (caches_keys cs) then cs else cs @ [(n, [])])"

definition caches_delete :: "string \<Rightarrow> cache_storage \<Rightarrow> cache_storage" where
  "caches_delete n cs = filter (\<lambda>(m, c). m \<noteq> n) cs"

definition http_scheme :: "request \<Rightarrow> bool" where
  "http_scheme q = (protocol (url q) = ''http:'' \<or> protocol (url q) = ''https:'')"

definition vary_star :: "response \<Rightarrow> bool" where
  "vary_star r = (map_of (headers r) ''vary'' = Some ''*'')"

definition put_accepted :: "request \<Rightarrow> response \<Rightarrow> bool" where
  "put_accepted q r = (http_scheme q \<and> req_method q = ''GET'' \<and> status r \<noteq> 206 \<and> \<not> vary_star r)"

definition cache_put :: "cache \<Rightarrow> request \<Rightarrow> response \<Rightarrow> cache" where
  "cache_put c q r = filter (\<lambda>(k, v). \<not> request_matches q k) c @ [(q, r)]"

definition update_cache :: "string \<Rightarrow> (cache \<Rightarrow> cache) \<Rightarrow> cache_storage \<Rightarrow> cache_storage" where
  "update_cache n f cs = map (\<lambda>(m, c). if m = n then (m, f c) else (m, c)) cs"

section \<open>The state of the worker\<close>

text \<open>
  What an event handler can change: the cache storage, the network requests issued so
  far (oldest first), the rejections of promises nobody awaits, and the two lifecycle
  calls \<^verbatim>\<open>self.skipWaiting()\<close> and \<^verbatim>\<open>self.clients.claim()\<close>.
\<close>

record sw_state =
  caches :: cache_storage
  fetched :: "request list"
  unhandled :: "js_error list"
  skipped_waiting :: bool
  claimed :: bool

definition do_fetch :: "request \<Rightarrow> sw_state \<Rightarrow> sw_state" where
  "do_fetch q st = st\<lparr>fetched := fetched st @ [q]\<rparr>"

text \<open>
  \<^verbatim>\<open>const cache = await caches.open(CACHE_NAME); cache.put(request, responseToCache);\<close>
  The promise of \<^verbatim>\<open>cache.put\<close> is not awaited: when the host rejects the pair, the
  rejection is unhandled and the strategy goes on.
\<close>

definition open_and_put :: "request \<Rightarrow> response \<Rightarrow> sw_state \<Rightarrow> sw_state" where
  "open_and_put q r st =
     (let cs = caches_open CACHE_NAME (caches st) in
      if put_accepted q r
      then st\<lparr>caches := update_cache CACHE_NAME (\<lambda>c. cache_put c q r) cs\<rparr>
      else st\<lparr>caches := cs, unhandled := unhandled st @ [TypeError]\<rparr>)"

section \<open>The fetch strategies\<close>

definition network_error_response :: response where
  "network_error_response =
     \<lparr>status = 408, headers = [(''content-type'', ''text/plain'')],
      body = ''Network error happened''\<rparr>"

definition offline_message :: string where
  "offline_message =
     [CHR 0xE6, CHR 0x82, CHR 0xA8, CHR 0xE5, CHR 0xBD, CHR 0x93, CHR 0xE5, CHR 0x89, CHR 0x8D,
      CHR 0xE5, CHR 0xA4, CHR 0x84, CHR 0xE4, CHR 0xBA, CHR 0x8E, CHR 0xE7, CHR 0xA6, CHR 0xBB,
      CHR 0xE7, CHR 0xBA, CHR 0xBF, CHR 0xE7, CHR 0x8A, CHR 0xB6, CHR 0xE6, CHR 0x80, CHR 0x81,
      CHR 0xEF, CHR 0xBC, CHR 0x8C, CHR 0xE6, CHR 0x97, CHR 0xA0, CHR 0xE6, CHR 0xB3, CHR 0x95,
      CHR 0xE8, CHR 0x8E, CHR 0xB7, CHR 0xE5, CHR 0x8F, CHR 0x96, CHR 0xE6, CHR 0x9C, CHR 0x80,
      CHR 0xE6, CHR 0x96, CHR 0xB0, CHR 0xE6, CHR 0x95, CHR 0xB0, CHR 0xE6, CHR 0x8D, CHR 0xAE]"

definition offline_response :: response where
  "offline_response =
     \<lparr>status = 200, headers = [(''content-type'', ''text/plain'')], body = offline_message\<rparr>"

text \<open>
  \<^verbatim>\<open>cacheFirst\<close>, lines 61 to 95. In the \<^verbatim>\<open>catch\<close> block
  \<^verbatim>\<open>request.headers.get('accept').includes('text/html')\<close> reads a property of
  \<^verbatim>\<open>null\<close> when the request has no \<^verbatim>\<open>accept\<close> header: a \<^verbatim>\<open>TypeError\<close> that
  nothing catches, so the promise of the function is rejected.
\<close>

definition cacheFirst ::
  "(string \<Rightarrow> URL) \<Rightarrow> network \<Rightarrow> request \<Rightarrow> sw_state \<Rightarrow> response option promise \<times> sw_state" where
  "cacheFirst resolve net q st =
     (case caches_match (caches st) q of
        Some cachedResponse \<Rightarrow> (Fulfilled (Some cachedResponse), st)
      | None \<Rightarrow>
          (let st1 = do_fetch q st in
           case net q of
             Fulfilled networkResponse \<Rightarrow>
               (Fulfilled (Some networkResponse),
                if status networkResponse = 200 \<and> req_method q = ''GET''
                then open_and_put q networkResponse st1 else st1)
           | Rejected e \<Rightarrow>
               (case accept q of
                  None \<Rightarrow> (Rejected TypeError, st1)
                | Some a \<Rightarrow>
                    if str_includes a ''text/html''
                    then (Fulfilled (caches_match (caches st1) (new_Request (resolve ''./index.html''))),
                          st1)
                    else (Fulfilled (Some network_error_response), st1))))"

text \<open>\<^verbatim>\<open>networkFirst\<close>, lines 98 to 126.\<close>

definition networkFirst ::
  "network \<Rightarrow> request \<Rightarrow> sw_state \<Rightarrow> response option promise \<times> sw_state" where
  "networkFirst net q st =
     (let st1 = do_fetch q st in
      case net q of
        Fulfilled networkResponse \<Rightarrow>
          (Fulfilled (Some networkResponse),
           if status networkResponse = 200
           then open_and_put q networkResponse st1 else st1)
      | Rejected e \<Rightarrow>
          (case caches_match (caches st1) q of
             Some cachedResponse \<Rightarrow> (Fulfilled (Some cachedResponse), st1)
           | None \<Rightarrow> (Fulfilled (Some offline_response), st1)))"

text \<open>The \<^verbatim>\<open>fetch\<close> listener, lines 47 to 58: the router.\<close>

definition is_api :: "request \<Rightarrow> bool" where
  "is_api q = startsWith (pathname (url q)) ''/api/''"

definition fetch_listener ::
  "(string \<Rightarrow> URL) \<Rightarrow> network \<Rightarrow> request \<Rightarrow> sw_state \<Rightarrow> response option promise \<times> sw_state" where
  "fetch_listener resolve net q st =
     (if is_api q then networkFirst net q st else cacheFirst resolve net q st)"

text \<open>
  The host dispatches the fetch event. Before it does, it appends an \<^verbatim>\<open>Accept\<close>
  header to a request that lacks one (the Fetch standard: \<^verbatim>\<open>*/*\<close>, or a value that
  goes with the destination of the request; the parameter \<open>default_accept\<close>), so
  \<^verbatim>\<open>event.request\<close> always carries the header. The listener is the only caller of the
  two strategies, and it passes them \<^verbatim>\<open>event.request\<close>.
\<close>

definition event_request :: "(request \<Rightarrow> string) \<Rightarrow> request \<Rightarrow> request" where
  "event_request default_accept q =
     (case accept q of
        None \<Rightarrow> q\<lparr>accept := Some (default_accept q)\<rparr>
      | Some a \<Rightarrow> q)"

definition fetch_event ::
  "(request \<Rightarrow> string) \<Rightarrow> (string \<Rightarrow> URL) \<Rightarrow> network \<Rightarrow> request \<Rightarrow> sw_state
     \<Rightarrow> response option promise \<times> sw_state" where
  "fetch_event default_accept resolve net q st =
     fetch_listener resolve net (event_request default_accept q) st"

section \<open>The lifecycle: install and activate\<close>

text \<open>
  Modelled from the spec: \<^verbatim>\<open>cache.addAll\<close> is a primitive of the host's Cache
  interface and no code of it is in the repository. The spec describes it as a bulk
  operation that is all-or-nothing; the model follows the algorithm of the Service Worker
  standard. Every URL must be http(s); every request is fetched; a fetch that is rejected
  or whose response is not ok (status 200 to 299), is a 206 or carries \<^verbatim>\<open>Vary: *\<close>
  rejects the whole call with a \<^verbatim>\<open>TypeError\<close>; two requests of one batch for the
  same URL reject it with an \<^verbatim>\<open>InvalidStateError\<close>; only when nothing failed are all
  pairs written.
\<close>

definition response_ok :: "response \<Rightarrow> bool" where
  "response_ok r = (200 \<le> status r \<and> status r \<le> 299)"

definition fetch_ok :: "network \<Rightarrow> request \<Rightarrow> bool" where
  "fetch_ok net q =
     (case net q of
        Rejected e \<Rightarrow> False
      | Fulfilled r \<Rightarrow> response_ok r \<and> status r \<noteq> 206 \<and> \<not> vary_star r)"

fun addAll_fetch :: "network \<Rightarrow> request list \<Rightarrow> (request \<times> response) list promise" where
  "addAll_fetch net [] = Fulfilled []"
| "addAll_fetch net (q # qs) =
     (case net q of
        Rejected e \<Rightarrow> Rejected TypeError
      | Fulfilled r \<Rightarrow>
          if response_ok r \<and> status r \<noteq> 206 \<and> \<not> vary_star r
          then (case addAll_fetch net qs of
                  Rejected e \<Rightarrow> Rejected e
                | Fulfilled ps \<Rightarrow> Fulfilled ((q, r) # ps))
          else Rejected TypeError)"

definition url_key :: "URL \<Rightarrow> string \<times> string \<times> string \<times> string" where
  "url_key u = (protocol u, host u, pathname u, search u)"

definition put_all :: "cache \<Rightarrow> (request \<times> response) list \<Rightarrow> cache" where
  "put_all c ps = foldl (\<lambda>c (q, r). cache_put c q r) c ps"

definition cache_addAll ::
  "string \<Rightarrow> network \<Rightarrow> request list \<Rightarrow> sw_state \<Rightarrow> unit promise \<times> sw_state" where
  "cache_addAll n net requests st =
     (if list_all http_scheme requests
      then (let st1 = st\<lparr>fetched := fetched st @ requests\<rparr> in
            case addAll_fetch net requests of
              Rejected e \<Rightarrow> (Rejected e, st1)
            | Fulfilled ps \<Rightarrow>
                if distinct (map (\<lambda>q. url_key (url q)) requests)
                then (Fulfilled (),
                      st1\<lparr>caches := update_cache n (\<lambda>c. put_all c ps) (caches st1)\<rparr>)
                else (Rejected InvalidStateError, st1))
      else (Rejected TypeError, st))"

text \<open>
  The \<^verbatim>\<open>install\<close> listener, lines 16 to 25: open the current generation, add the
  manifest, and only then call \<^verbatim>\<open>self.skipWaiting()\<close>. A rejection of
  \<^verbatim>\<open>cache.addAll\<close> is the rejection of the promise given to \<^verbatim>\<open>event.waitUntil\<close>.
\<close>

definition manifest_requests :: "(string \<Rightarrow> URL) \<Rightarrow> request list" where
  "manifest_requests resolve = map (\<lambda>u. new_Request (resolve u)) STATIC_CACHE_URLS"

definition install :: "(string \<Rightarrow> URL) \<Rightarrow> network \<Rightarrow> sw_state \<Rightarrow> unit promise \<times> sw_state" where
  "install resolve net st =
     (let st1 = st\<lparr>caches := caches_open CACHE_NAME (caches st)\<rparr> in
      case cache_addAll CACHE_NAME net (manifest_requests resolve) st1 of
        (Rejected e, st2) \<Rightarrow> (Rejected e, st2)
      | (Fulfilled u, st2) \<Rightarrow> (Fulfilled (), st2\<lparr>skipped_waiting := True\<rparr>))"

text \<open>
  The \<^verbatim>\<open>activate\<close> listener, lines 28 to 44: the names that start with the prefix and
  differ from \<^verbatim>\<open>CACHE_NAME\<close> are deleted one by one, then the clients are claimed.
\<close>

definition is_old_cache :: "string \<Rightarrow> bool" where
  "is_old_cache cacheName = (startsWith cacheName ''habit-tracker-'' \<and> cacheName \<noteq> CACHE_NAME)"

definition activate :: "sw_state \<Rightarrow> unit promise \<times> sw_state" where
  "activate st =
     (let cacheNames = caches_keys (caches st) in
      (Fulfilled (),
       st\<lparr>caches := foldl (\<lambda>cs cacheName. caches_delete cacheName cs) (caches st)
                        (filter is_old_cache cacheNames),
          claimed := True\<rparr>))"

section \<open>Push messages\<close>

text \<open>
  The value \<^verbatim>\<open>event.data.json()\<close> returns is a JSON value; an object is the list of
  its members in the order of the text, and a later member of the same name wins, as in
  \<^verbatim>\<open>JSON.parse\<close>. \<open>Malformed\<close> is a payload whose \<^verbatim>\<open>json()\<close> throws a
  \<^verbatim>\<open>SyntaxError\<close>.
\<close>

datatype json =
    JNull
  | JBool bool
  | JNumber real
  | JString string
  | JArray "json list"
  | JObject "(string \<times> json) list"

datatype message_data = Malformed | Parses json

text \<open>
  Reading a property: of \<^verbatim>\<open>null\<close> it throws a \<^verbatim>\<open>TypeError\<close>; of an object it is
  the member, or \<^verbatim>\<open>undefined\<close> (\<open>None\<close>); no other JSON value has a property called
  \<^verbatim>\<open>title\<close>, \<^verbatim>\<open>body\<close> or \<^verbatim>\<open>url\<close>.
\<close>

fun json_member :: "json \<Rightarrow> string \<Rightarrow> json option" where
  "json_member (JObject members) k = map_of (rev members) k"
| "json_member j k = None"

definition get_property :: "json \<Rightarrow> string \<Rightarrow> js_error + json option" where
  "get_property j k = (if j = JNull then Inl TypeError else Inr (json_member j k))"

fun truthy :: "json \<Rightarrow> bool" where
  "truthy JNull = False"
| "truthy (JBool b) = b"
| "truthy (JNumber x) = (x \<noteq> 0)"
| "truthy (JString s) = (s \<noteq> [])"
| "truthy (JArray xs) = True"
| "truthy (JObject members) = True"

text \<open>\<^verbatim>\<open>v || d\<close>, where \<^verbatim>\<open>v\<close> may be \<^verbatim>\<open>undefined\<close>.\<close>

definition or_default :: "json option \<Rightarrow> json \<Rightarrow> json" where
  "or_default v d = (case v of None \<Rightarrow> d | Some x \<Rightarrow> if truthy x then x else d)"

definition default_body :: string where
  "default_body =
     [CHR 0xE8, CHR 0xAF, CHR 0xA5, CHR 0xE6, CHR 0x89, CHR 0x93, CHR 0xE5, CHR 0x8D, CHR 0xA1,
      CHR 0xE4, CHR 0xBA, CHR 0x86, CHR 0xEF, CHR 0xBC, CHR 0x81]"

definition default_title :: string where
  "default_title =
     [CHR 0xE4, CHR 0xB9, CHR 0xA0, CHR 0xE6, CHR 0x83, CHR 0xAF, CHR 0xE6, CHR 0x89, CHR 0x93,
      CHR 0xE5, CHR 0x8D, CHR 0xA1, CHR 0xE6, CHR 0x8F, CHR 0x90, CHR 0xE9, CHR 0x86, CHR 0x92]"

definition default_url :: string where
  "default_url = ''./index.html''"

definition checkin_title :: string where
  "checkin_title =
     [CHR 0xE5, CHR 0x8E, CHR 0xBB, CHR 0xE6, CHR 0x89, CHR 0x93, CHR 0xE5, CHR 0x8D, CHR 0xA1]"

definition later_title :: string where
  "later_title =
     [CHR 0xE7, CHR 0xA8, CHR 0x8D, CHR 0xE5, CHR 0x90, CHR 0x8E, CHR 0xE6, CHR 0x8F, CHR 0x90,
      CHR 0xE9, CHR 0x86, CHR 0x92]"

record notification_action =
  action :: string
  title :: string

record notification_options =
  opt_body :: json
  opt_icon :: string
  opt_badge :: string
  opt_data_url :: json
  opt_actions :: "notification_action list"

text \<open>
  What the \<^verbatim>\<open>push\<close> listener does, lines 153 to 183: it returns at once, it calls
  \<^verbatim>\<open>showNotification(title, options)\<close>, or it catches an error and logs it.
\<close>

datatype push_result =
    ReturnedEarly
  | ShowNotification json notification_options
  | Caught js_error

definition push_listener :: "message_data option \<Rightarrow> push_result" where
  "push_listener event_data =
     (case event_data of
        None \<Rightarrow> ReturnedEarly
      | Some Malformed \<Rightarrow> Caught SyntaxError
      | Some (Parses data) \<Rightarrow>
          (case get_property data ''body'' of
             Inl e \<Rightarrow> Caught e
           | Inr b \<Rightarrow>
               (case get_property data ''url'' of
                  Inl e \<Rightarrow> Caught e
                | Inr u \<Rightarrow>
                    (case get_property data ''title'' of
                       Inl e \<Rightarrow> Caught e
                     | Inr t \<Rightarrow>
                         ShowNotification (or_default t (JString default_title))
                           \<lparr>opt_body = or_default b (JString default_body),
                            opt_icon = ''./icons/icon-192x192.svg'',
                            opt_badge = ''./icons/icon-72x72.svg'',
                            opt_data_url = or_default u (JString default_url),
                            opt_actions =
                              [\<lparr>action = ''checkin'', title = checkin_title\<rparr>,
                               \<lparr>action = ''later'', title = later_title\<rparr>]\<rparr>))))"

section \<open>What is stored, and concrete inputs\<close>

text \<open>The request/response pairs that the caches of a state hold.\<close>

definition entries :: "sw_state \<Rightarrow> (request \<times> response) set" where
  "entries st = (\<Union>(n, c) \<in> set (caches st). set c)"

text \<open>
  The current generation answers a request: the cache of the current name has a pair
  that the request matches.
\<close>

definition in_current_generation :: "cache_storage \<Rightarrow> request \<Rightarrow> bool" where
  "in_current_generation cs k =
     list_ex (\<lambda>(n, c). n = CACHE_NAME \<and> cache_match c k \<noteq> None) cs"

text \<open>
  Inputs for the examples: the site the worker is deployed on, a request for one of its
  paths, a 200 response, a state with given caches and nothing else, a network that is
  down, one that answers every request alike and one on which only the web manifest
  cannot be reached, and the resolution of the manifest's URL
  strings for a worker served from the root of the site.
\<close>

definition site_url :: "string \<Rightarrow> URL" where
  "site_url p =
     \<lparr>protocol = ''https:'', host = ''shuohuaizeng.github.io'', pathname = p,
      search = [], hash = []\<rparr>"

definition site_request :: "string \<Rightarrow> string \<Rightarrow> string option \<Rightarrow> request" where
  "site_request m p a = \<lparr>url = site_url p, req_method = m, accept = a\<rparr>"

definition extension_request :: request where
  "extension_request =
     \<lparr>url = \<lparr>protocol = ''chrome-extension:'', host = ''abcdefgh'', pathname = ''/inject.js'',
             search = [], hash = []\<rparr>,
      req_method = ''GET'', accept = Some ''*/*''\<rparr>"

definition page :: "string \<Rightarrow> response" where
  "page b = \<lparr>status = 200, headers = [(''content-type'', ''text/html'')], body = b\<rparr>"

definition storage :: "cache_storage \<Rightarrow> sw_state" where
  "storage cs =
     \<lparr>caches = cs, fetched = [], unhandled = [], skipped_waiting = False, claimed = False\<rparr>"

definition offline :: network where
  "offline q = Rejected TypeError"

definition online :: "response \<Rightarrow> network" where
  "online r q = Fulfilled r"

definition manifest_missing :: network where
  "manifest_missing q =
     (if pathname (url q) = ''/manifest.json'' then Rejected TypeError
      else Fulfilled (page ''ok''))"

definition resolve_site :: "string \<Rightarrow> URL" where
  "resolve_site s =
     (if startsWith s ''./'' then site_url (''/'' @ drop 2 s)
      else (let rest = drop 8 s; p = dropWhile (\<lambda>c. c \<noteq> CHR ''/'') rest in
            \<lparr>protocol = ''https:'', host = takeWhile (\<lambda>c. c \<noteq> CHR ''/'') rest,
             pathname = (if p = [] then ''/'' else p), search = [], hash = []\<rparr>))"

section \<open>Facts about the cache storage\<close>

lemma request_matches_self: "req_method q = ''GET'' \<Longrightarrow> request_matches q q"
  by (simp add: request_matches_def same_url_def)

lemma cache_match_stored:
  "cache_match c q = Some r \<Longrightarrow> \<exists>k. (k, r) \<in> set c \<and> request_matches q k"
  by (induction c) (auto split: if_splits)

lemma caches_match_stored:
  "caches_match cs q = Some r \<Longrightarrow>
   \<exists>n c k. (n, c) \<in> set cs \<and> (k, r) \<in> set c \<and> request_matches q k"
proof (induction cs)
  case Nil
  then show ?case by simp
next
  case (Cons a cs)
  obtain n c where a: "a = (n, c)" by (cases a)
  show ?case
  proof (cases "cache_match c q")
    case None
    with Cons a show ?thesis by auto
  next
    case (Some r')
    with Cons.prems a have "r' = r" by simp
    with Some cache_match_stored [of c q r] a show ?thesis by auto
  qed
qed

text \<open>A request that some cache holds is never a miss of \<^verbatim>\<open>caches.match\<close>.\<close>

lemma caches_match_present:
  "(n, c) \<in> set cs \<Longrightarrow> cache_match c q = Some r \<Longrightarrow> caches_match cs q \<noteq> None"
  by (induction cs) (auto split: option.splits)

text \<open>The lookup does not read the \<^verbatim>\<open>accept\<close> header of the query.\<close>

lemma cache_match_accept: "cache_match c (q\<lparr>accept := x\<rparr>) = cache_match c q"
  by (induction c) (auto simp add: request_matches_def)

lemma caches_match_accept: "caches_match cs (q\<lparr>accept := x\<rparr>) = caches_match cs q"
  by (induction cs) (auto simp add: cache_match_accept split: option.split)

lemma cache_match_append:
  "cache_match (c @ d) q =
     (case cache_match c q of Some r \<Rightarrow> Some r | None \<Rightarrow> cache_match d q)"
  by (induction c) auto

lemma cache_match_filter_other:
  "(\<And>k. P k \<Longrightarrow> \<not> request_matches q k) \<Longrightarrow>
   cache_match (filter (\<lambda>(k, v). \<not> P k) c) q = cache_match c q"
  by (induction c) auto

lemma cache_match_filter_self:
  "cache_match (filter (\<lambda>(k, v). \<not> request_matches q k) c) q = None"
  by (induction c) auto

lemma cache_match_put_same:
  "req_method q = ''GET'' \<Longrightarrow> cache_match (cache_put c q r) q = Some r"
  by (simp add: cache_put_def cache_match_append cache_match_filter_self request_matches_self)

lemma cache_match_put_other:
  assumes "url_key (url q) \<noteq> url_key (url q')"
  shows "cache_match (cache_put c q' r') q = cache_match c q"
proof -
  have no: "\<not> request_matches q q'"
    using assms by (auto simp add: request_matches_def same_url_def url_key_def)
  have "request_matches q' k \<Longrightarrow> \<not> request_matches q k" for k
    using assms by (auto simp add: request_matches_def same_url_def url_key_def)
  then have "cache_match (filter (\<lambda>(k, v). \<not> request_matches q' k) c) q = cache_match c q"
    by (rule cache_match_filter_other)
  with no show ?thesis
    by (simp add: cache_put_def cache_match_append split: option.split)
qed

lemma caches_match_append:
  "caches_match (cs @ ds) q =
     (case caches_match cs q of Some r \<Rightarrow> Some r | None \<Rightarrow> caches_match ds q)"
  by (induction cs) (auto split: option.split)

lemma caches_match_open: "caches_match (caches_open n cs) q = caches_match cs q"
  by (simp add: caches_open_def caches_match_append split: option.split)

lemma caches_keys_open: "n \<in> set (caches_keys (caches_open n cs))"
  by (simp add: caches_open_def caches_keys_def)

text \<open>The names of the storage stay distinct: the storage is a map from names.\<close>

lemma caches_open_distinct:
  "distinct (caches_keys cs) \<Longrightarrow> distinct (caches_keys (caches_open n cs))"
  by (simp add: caches_open_def caches_keys_def)

lemma caches_keys_update: "caches_keys (update_cache n f cs) = caches_keys cs"
  by (induction cs) (auto simp add: update_cache_def caches_keys_def)

lemma open_and_put_distinct:
  "distinct (caches_keys (caches st)) \<Longrightarrow> distinct (caches_keys (caches (open_and_put q r st)))"
  by (simp add: open_and_put_def Let_def caches_keys_update caches_open_distinct)

lemma caches_match_after_put:
  assumes "caches_match cs q = None" and "n \<in> set (caches_keys cs)"
    and "req_method q = ''GET''"
  shows "caches_match (update_cache n (\<lambda>c. cache_put c q r) cs) q = Some r"
  using assms
proof (induction cs)
  case Nil
  then show ?case by (simp add: caches_keys_def)
next
  case (Cons a cs)
  obtain m c where a: "a = (m, c)" by (cases a)
  from Cons.prems a have miss: "cache_match c q = None" and rest: "caches_match cs q = None"
    by (auto split: option.splits)
  show ?case
  proof (cases "m = n")
    case True
    with a Cons.prems show ?thesis
      by (simp add: update_cache_def cache_match_put_same)
  next
    case False
    with Cons.prems a have "n \<in> set (caches_keys cs)" by (simp add: caches_keys_def)
    with Cons.IH rest Cons.prems
    have "caches_match (update_cache n (\<lambda>c. cache_put c q r) cs) q = Some r"
      by simp
    with False a miss show ?thesis by (simp add: update_cache_def)
  qed
qed

lemma entries_open:
  "(\<Union>(n, c) \<in> set (caches_open m cs). set c) = (\<Union>(n, c) \<in> set cs. set c)"
  by (auto simp add: caches_open_def)

lemma entries_update_put:
  "(\<Union>(n, c) \<in> set (update_cache m (\<lambda>c. cache_put c q r) cs). set c)
     \<subseteq> insert (q, r) (\<Union>(n, c) \<in> set cs. set c)"
  by (auto simp add: update_cache_def cache_put_def split: if_splits)

lemma entries_open_and_put:
  "entries (open_and_put q r st)
     \<subseteq> (if put_accepted q r then insert (q, r) (entries st) else entries st)"
  using entries_update_put [of CACHE_NAME q r "caches_open CACHE_NAME (caches st)"]
  by (auto simp add: open_and_put_def entries_def Let_def entries_open)

section \<open>Serving a request\<close>

subsection \<open>A hit in the cache, and the network-first fallback\<close>

text \<open>
  C1. A request that is routed to the cache-first strategy (its path does not start with
  \<^verbatim>\<open>/api/\<close>) and that \<^verbatim>\<open>caches.match\<close> finds is answered with the stored response
  that was found. The state is the same afterwards: no network request was issued and
  nothing was written. The response returned is one that a cache of the storage holds
  under a request the query matches.
\<close>

theorem cacheFirst_cache_hit:
  assumes "\<not> is_api q" and "caches_match (caches st) q = Some r"
  shows "fetch_listener resolve net q st = (Fulfilled (Some r), st)
       \<and> cacheFirst resolve net q st = (Fulfilled (Some r), st)
       \<and> fetched (snd (cacheFirst resolve net q st)) = fetched st
       \<and> (\<exists>n c k. (n, c) \<in> set (caches st) \<and> (k, r) \<in> set c \<and> request_matches q k)"
  using assms caches_match_stored [of "caches st" q r]
  by (simp add: fetch_listener_def cacheFirst_def)

theorem cacheFirst_cache_hit_witness:
  "\<not> is_api (site_request ''GET'' ''/logo.png'' None)
   \<and> caches_match
        (caches (storage [(CACHE_NAME, [(site_request ''GET'' ''/logo.png'' None, page ''png'')])]))
        (site_request ''GET'' ''/logo.png'' None) = Some (page ''png'')
   \<and> fetch_listener resolve_site offline (site_request ''GET'' ''/logo.png'' None)
        (storage [(CACHE_NAME, [(site_request ''GET'' ''/logo.png'' None, page ''png'')])])
      = (Fulfilled (Some (page ''png'')),
         storage [(CACHE_NAME, [(site_request ''GET'' ''/logo.png'' None, page ''png'')])])"
  using cacheFirst_cache_hit [of "site_request ''GET'' ''/logo.png'' None"
      "storage [(CACHE_NAME, [(site_request ''GET'' ''/logo.png'' None, page ''png'')])]"
      "page ''png''" resolve_site offline]
  by (simp add: is_api_def startsWith_def site_request_def site_url_def storage_def
      request_matches_def same_url_def)

text \<open>
  C2. When the network fetch of the network-first strategy fails, the promise is
  fulfilled, never rejected: with the cached entry when \<^verbatim>\<open>caches.match\<close> finds one for
  the request, and otherwise with the offline placeholder, a response of status 200 and
  content type \<^verbatim>\<open>text/plain\<close>. Nothing is written to the caches.
\<close>

theorem networkFirst_offline_fallback:
  assumes "net q = Rejected e"
  shows "networkFirst net q st =
           (Fulfilled (Some (case caches_match (caches st) q of
                               Some cachedResponse \<Rightarrow> cachedResponse
                             | None \<Rightarrow> offline_response)),
            do_fetch q st)
       \<and> caches (do_fetch q st) = caches st
       \<and> status offline_response = 200
       \<and> map_of (headers offline_response) ''content-type'' = Some ''text/plain''
       \<and> body offline_response = offline_message"
  using assms
  by (simp add: networkFirst_def do_fetch_def offline_response_def split: option.split)

theorem networkFirst_offline_fallback_witness:
  "offline (site_request ''GET'' ''/api/habits'' None) = Rejected TypeError
   \<and> fst (fetch_listener resolve_site offline (site_request ''GET'' ''/api/habits'' None) (storage []))
       = Fulfilled (Some offline_response)
   \<and> fst (networkFirst offline (site_request ''GET'' ''/api/habits'' None)
            (storage [(CACHE_NAME, [(site_request ''GET'' ''/api/habits'' None, page ''[]'')])]))
       = Fulfilled (Some (page ''[]''))"
  using networkFirst_offline_fallback [of offline "site_request ''GET'' ''/api/habits'' None"
      TypeError "storage []"]
    networkFirst_offline_fallback [of offline "site_request ''GET'' ''/api/habits'' None"
      TypeError "storage [(CACHE_NAME, [(site_request ''GET'' ''/api/habits'' None, page ''[]'')])]"]
  by (simp add: offline_def fetch_listener_def is_api_def startsWith_def site_request_def
      site_url_def storage_def request_matches_def same_url_def)

subsection \<open>The cache-first strategy when the network is down\<close>


lemma event_request_same:
  "accept q = Some a \<Longrightarrow> event_request default_accept q = q"
  by (simp add: event_request_def)



text \<open>
  C3. A request of a fetch event carries an \<^verbatim>\<open>accept\<close> header
  (\<open>event_request_accept\<close>). When
  \<^verbatim>\<open>cacheFirst\<close> serves one that is not in the cache and the network fetch fails, the
  promise is fulfilled: for a request whose header includes \<^verbatim>\<open>text/html\<close> with the
  answer of \<^verbatim>\<open>caches.match('./index.html')\<close>, which is the cached application shell
  when the shell is cached; for every other request with a response of status 408 and
  content type \<^verbatim>\<open>text/plain\<close>. Nothing is written to the caches.
\<close>

theorem cacheFirst_offline_fallback:
  assumes "caches_match (caches st) q = None" and "net q = Rejected e"
    and "accept q = Some a"
  shows "cacheFirst resolve net q st =
           (Fulfilled (if str_includes a ''text/html''
                       then caches_match (caches st) (new_Request (resolve ''./index.html''))
                       else Some network_error_response),
            do_fetch q st)
       \<and> caches (do_fetch q st) = caches st
       \<and> status network_error_response = 408
       \<and> map_of (headers network_error_response) ''content-type'' = Some ''text/plain''
       \<and> body network_error_response = ''Network error happened''"
  using assms by (simp add: cacheFirst_def do_fetch_def network_error_response_def)

theorem cacheFirst_offline_fallback_witness:
  "caches_match (caches (storage [(CACHE_NAME, [(new_Request (site_url ''/index.html''), page ''shell'')])]))
     (site_request ''GET'' ''/logo.png'' (Some ''image/png'')) = None
   \<and> offline (site_request ''GET'' ''/logo.png'' (Some ''image/png'')) = Rejected TypeError
   \<and> fst (cacheFirst resolve_site offline (site_request ''GET'' ''/logo.png'' (Some ''image/png''))
            (storage [(CACHE_NAME, [(new_Request (site_url ''/index.html''), page ''shell'')])]))
       = Fulfilled (Some network_error_response)
   \<and> fst (cacheFirst resolve_site offline
            (site_request ''GET'' ''/history'' (Some ''text/html,application/xhtml+xml''))
            (storage [(CACHE_NAME, [(new_Request (site_url ''/index.html''), page ''shell'')])]))
       = Fulfilled (Some (page ''shell''))"
  using cacheFirst_offline_fallback [of
      "storage [(CACHE_NAME, [(new_Request (site_url ''/index.html''), page ''shell'')])]"
      "site_request ''GET'' ''/logo.png'' (Some ''image/png'')" offline TypeError "''image/png''"
      resolve_site]
    cacheFirst_offline_fallback [of
      "storage [(CACHE_NAME, [(new_Request (site_url ''/index.html''), page ''shell'')])]"
      "site_request ''GET'' ''/history'' (Some ''text/html,application/xhtml+xml'')" offline
      TypeError "''text/html,application/xhtml+xml''" resolve_site]
  by (simp add: offline_def site_request_def site_url_def storage_def new_Request_def
      resolve_site_def startsWith_def request_matches_def same_url_def)

text \<open>
  The same at the level of the fetch event, for a request issued with or without the
  header: \<^verbatim>\<open>cacheFirst\<close> reads the header that \<^verbatim>\<open>event.request\<close> carries.
\<close>

lemma fetch_event_offline_fallback:
  assumes "\<not> is_api q" and "caches_match (caches st) q = None"
    and "net (event_request default_accept q) = Rejected e"
  shows "\<exists>a. accept (event_request default_accept q) = Some a
           \<and> fst (fetch_event default_accept resolve net q st)
               = Fulfilled (if str_includes a ''text/html''
                            then caches_match (caches st) (new_Request (resolve ''./index.html''))
                            else Some network_error_response)"
proof (cases "accept q")
  case None
  with assms show ?thesis
    by (simp add: fetch_event_def event_request_def fetch_listener_def is_api_def
        cacheFirst_def do_fetch_def caches_match_accept)
next
  case (Some a)
  with assms show ?thesis
    by (simp add: fetch_event_def event_request_def fetch_listener_def cacheFirst_def
        do_fetch_def)
qed

text \<open>
  Called directly with a request that has no \<^verbatim>\<open>accept\<close> header, which no fetch event
  carries, the listener returns a rejected promise: the \<^verbatim>\<open>catch\<close> block of
  \<^verbatim>\<open>cacheFirst\<close> reads \<^verbatim>\<open>includes\<close> of \<^verbatim>\<open>null\<close>.
\<close>

lemma fetch_listener_without_accept:
  "fst (fetch_listener resolve_site offline (site_request ''GET'' ''/manifest.json'' None)
          (storage [(CACHE_NAME, [(new_Request (resolve_site ''./index.html''), page ''shell'')])]))
     = Rejected TypeError"
  by (simp add: fetch_listener_def is_api_def startsWith_def cacheFirst_def offline_def
      site_request_def site_url_def storage_def do_fetch_def new_Request_def resolve_site_def
      request_matches_def same_url_def)



subsection \<open>What the strategies write\<close>

text \<open>
  C4. Whichever strategy serves a request, a pair that is in the caches afterwards and
  was not there before is the request with the response the network gave for it, that
  response has status 200 and the request is a \<^verbatim>\<open>GET\<close>. \<^verbatim>\<open>cacheFirst\<close> tests the
  method itself before it writes (line 73). \<^verbatim>\<open>networkFirst\<close> tests the status only
  (line 104) and its \<^verbatim>\<open>cache.put\<close> of another method is rejected by the host; the
  rejection is not awaited, and nothing is stored.
\<close>

theorem only_ok_GET_persisted:
  assumes "strategy = cacheFirst resolve \<or> strategy = networkFirst"
    and "e \<in> entries (snd (strategy net q st))" and "e \<notin> entries st"
  shows "\<exists>r. net q = Fulfilled r \<and> e = (q, r) \<and> status r = 200 \<and> req_method q = ''GET''"
proof -
  have put: "e = (q, r) \<and> req_method q = ''GET''"
    if "e \<in> entries (open_and_put q r (do_fetch q st))" for r
    using that entries_open_and_put [of q r "do_fetch q st"] assms(3)
    by (auto simp add: entries_def do_fetch_def put_accepted_def split: if_splits)
  from assms(1) show ?thesis
  proof
    assume "strategy = cacheFirst resolve"
    with assms(2,3) put show ?thesis
      by (auto simp add: cacheFirst_def Let_def entries_def do_fetch_def
          split: option.splits promise.splits if_splits)
  next
    assume "strategy = networkFirst"
    with assms(2,3) put show ?thesis
      by (auto simp add: networkFirst_def Let_def entries_def do_fetch_def
          split: option.splits promise.splits if_splits)
  qed
qed

theorem only_ok_GET_persisted_witness:
  "(site_request ''GET'' ''/api/habits'' None, page ''[]'')
     \<in> entries (snd (networkFirst (online (page ''[]''))
                       (site_request ''GET'' ''/api/habits'' None) (storage [])))
   \<and> (site_request ''GET'' ''/api/habits'' None, page ''[]'') \<notin> entries (storage [])
   \<and> online (page ''[]'') (site_request ''GET'' ''/api/habits'' None) = Fulfilled (page ''[]'')
   \<and> status (page ''[]'') = 200
   \<and> req_method (site_request ''GET'' ''/api/habits'' None) = ''GET''"
  using only_ok_GET_persisted [of networkFirst resolve_site
      "(site_request ''GET'' ''/api/habits'' None, page ''[]'')" "online (page ''[]'')"
      "site_request ''GET'' ''/api/habits'' None" "storage []"]
  by (simp add: networkFirst_def online_def page_def site_request_def site_url_def storage_def
      entries_def do_fetch_def open_and_put_def put_accepted_def http_scheme_def vary_star_def
      caches_open_def caches_keys_def update_cache_def cache_put_def Let_def)

text \<open>
  A 200 response to a \<^verbatim>\<open>POST\<close> that \<^verbatim>\<open>networkFirst\<close> serves is handed to
  \<^verbatim>\<open>cache.put\<close> all the same: the caches hold nothing afterwards, and the rejection
  of the write is left unhandled.
\<close>

lemma networkFirst_POST_not_stored:
  "networkFirst (online (page ''ok'')) (site_request ''POST'' ''/api/habits'' None) (storage [])
     = (Fulfilled (Some (page ''ok'')),
        \<lparr>caches = [(CACHE_NAME, [])],
         fetched = [site_request ''POST'' ''/api/habits'' None],
         unhandled = [TypeError], skipped_waiting = False, claimed = False\<rparr>)"
  by (simp add: networkFirst_def online_def page_def site_request_def storage_def
      do_fetch_def open_and_put_def put_accepted_def caches_open_def caches_keys_def Let_def)

subsection \<open>Serving the same request twice\<close>

text \<open>
  C8, as claimed: every \<^verbatim>\<open>GET\<close> of a path outside \<^verbatim>\<open>/api/\<close> whose first serve gets
  a 200 from the network is served from the cache the second time, with the same body.
  A request of a browser extension's resource is such a \<^verbatim>\<open>GET\<close>; the host rejects the
  write of its response, so the second serve asks the network again, and with the network
  down by then it answers with the 408 response.
\<close>

theorem cacheFirst_twice_refetches:
  "fst (fetch_listener resolve_site (online (page ''js'')) extension_request (storage []))
     = Fulfilled (Some (page ''js''))
   \<and> fetch_listener resolve_site offline extension_request
        (snd (fetch_listener resolve_site (online (page ''js'')) extension_request (storage [])))
     = (Fulfilled (Some network_error_response),
        \<lparr>caches = [(CACHE_NAME, [])],
         fetched = [extension_request, extension_request],
         unhandled = [TypeError], skipped_waiting = False, claimed = False\<rparr>)
   \<and> body network_error_response \<noteq> body (page ''js'')"
  by (simp add: fetch_listener_def is_api_def startsWith_def cacheFirst_def online_def
      offline_def extension_request_def page_def storage_def do_fetch_def open_and_put_def
      put_accepted_def http_scheme_def caches_open_def caches_keys_def Let_def
      network_error_response_def str_includes.simps)

text \<open>
  C8, amended: a \<^verbatim>\<open>GET\<close> of an http(s) URL outside \<^verbatim>\<open>/api/\<close> that is not in the
  cache and for which the network gives a 200 response without \<^verbatim>\<open>Vary: *\<close> is
  answered with that response and written to the current generation; serving the same
  request again, whatever the network does by then, returns the same response, so the
  same body, and leaves the state as it was: no network request is issued.
\<close>

theorem cacheFirst_twice:
  assumes "req_method q = ''GET''" and "\<not> is_api q"
    and "caches_match (caches st) q = None"
    and "net q = Fulfilled r" and "status r = 200"
    and "http_scheme q" and "\<not> vary_star r"
    and "st1 = snd (fetch_listener resolve net q st)"
  shows "fst (fetch_listener resolve net q st) = Fulfilled (Some r)
       \<and> fetch_listener resolve net' q st1 = (Fulfilled (Some r), st1)
       \<and> fetched (snd (fetch_listener resolve net' q st1)) = fetched st1"
proof -
  let ?st1 = "open_and_put q r (do_fetch q st)"
  have acc: "put_accepted q r" using assms by (simp add: put_accepted_def)
  have first: "cacheFirst resolve net q st = (Fulfilled (Some r), ?st1)"
    using assms by (simp add: cacheFirst_def Let_def)
  have "caches_match (caches_open CACHE_NAME (caches st)) q = None"
    using assms(3) by (simp add: caches_match_open)
  then have "caches_match (update_cache CACHE_NAME (\<lambda>c. cache_put c q r)
                (caches_open CACHE_NAME (caches st))) q = Some r"
    using caches_keys_open assms(1) by (rule caches_match_after_put)
  then have hit: "caches_match (caches ?st1) q = Some r"
    using acc by (simp add: open_and_put_def Let_def do_fetch_def)
  then have "cacheFirst resolve net' q ?st1 = (Fulfilled (Some r), ?st1)"
    by (simp add: cacheFirst_def)
  with first assms(2,8) show ?thesis by (simp add: fetch_listener_def)
qed

theorem cacheFirst_twice_witness:
  "fst (fetch_listener resolve_site (online (page ''<html>''))
          (site_request ''GET'' ''/index.html'' (Some ''text/html'')) (storage []))
     = Fulfilled (Some (page ''<html>''))
   \<and> fst (fetch_listener resolve_site offline
          (site_request ''GET'' ''/index.html'' (Some ''text/html''))
          (snd (fetch_listener resolve_site (online (page ''<html>''))
                  (site_request ''GET'' ''/index.html'' (Some ''text/html'')) (storage []))))
     = Fulfilled (Some (page ''<html>''))"
  using cacheFirst_twice [of "site_request ''GET'' ''/index.html'' (Some ''text/html'')"
      "storage []" "online (page ''<html>'')" "page ''<html>''"
      "snd (fetch_listener resolve_site (online (page ''<html>''))
              (site_request ''GET'' ''/index.html'' (Some ''text/html'')) (storage []))"
      resolve_site offline]
  by (simp add: is_api_def startsWith_def online_def page_def site_request_def site_url_def
      storage_def http_scheme_def vary_star_def)

section \<open>The lifecycle\<close>

subsection \<open>Activation\<close>

lemma caches_delete_all:
  "foldl (\<lambda>cs n. caches_delete n cs) cs ns = filter (\<lambda>(m, c). m \<notin> set ns) cs"
proof (induction ns arbitrary: cs)
  case Nil
  then show ?case by simp
next
  case (Cons n ns)
  have "filter (\<lambda>(m, c). m \<notin> set ns) (caches_delete n cs)
      = filter (\<lambda>(m, c). m \<notin> set (n # ns)) cs"
    by (induction cs) (auto simp add: caches_delete_def)
  with Cons show ?case by simp
qed

text \<open>Activation keeps exactly the caches whose name is not that of an old generation.\<close>

lemma activate_caches:
  "caches (snd (activate st)) = filter (\<lambda>(m, c). \<not> is_old_cache m) (caches st)"
proof -
  have "filter (\<lambda>(m, c). m \<notin> set (filter is_old_cache (caches_keys (caches st)))) (caches st)
      = filter (\<lambda>(m, c). \<not> is_old_cache m) (caches st)"
    by (rule filter_cong) (force simp add: caches_keys_def)+
  then show ?thesis
    by (simp add: activate_def Let_def caches_delete_all)
qed

lemma not_old_CACHE_NAME: "\<not> is_old_cache CACHE_NAME"
  by (simp add: is_old_cache_def)

lemma map_of_filter_keep:
  "\<not> P n \<Longrightarrow> map_of (filter (\<lambda>(m, c). \<not> P m) cs) n = map_of cs n"
  by (induction cs) auto

lemma one_cache_of_a_name:
  "distinct (map fst cs) \<Longrightarrow> n \<in> set (map fst cs) \<Longrightarrow>
   length (filter (\<lambda>(m, c). m = n) cs) = 1"
proof (induction cs)
  case Nil
  then show ?case by simp
next
  case (Cons a cs)
  obtain m c where a: "a = (m, c)" by (cases a)
  show ?case
  proof (cases "m = n")
    case True
    with Cons.prems a have "n \<notin> fst ` set cs" by simp
    then have "filter (\<lambda>(m, c). m = n) cs = []"
      by (force simp add: filter_empty_conv)
    with True a show ?thesis by simp
  next
    case False
    with Cons a show ?thesis by auto
  qed
qed

text \<open>
  Installation opens the current generation, whether or not the manifest can be added:
  when activation starts, the storage has a cache of that name.
\<close>

lemma install_opens_current:
  "CACHE_NAME \<in> set (caches_keys (caches (snd (install resolve net st))))"
  using caches_keys_open [of CACHE_NAME "caches st"]
  by (auto simp add: install_def cache_addAll_def Let_def caches_keys_update
      split: promise.splits if_splits)

text \<open>
  No handler of the worker creates a second cache of a name: the names of the storage
  stay distinct under both strategies, under installation and under activation.
\<close>

lemma fetch_listener_distinct:
  "distinct (caches_keys (caches st)) \<Longrightarrow>
   distinct (caches_keys (caches (snd (fetch_listener resolve net q st))))"
  by (auto simp add: fetch_listener_def cacheFirst_def networkFirst_def Let_def do_fetch_def
      open_and_put_distinct split: option.splits promise.splits)

lemma install_distinct:
  "distinct (caches_keys (caches st)) \<Longrightarrow>
   distinct (caches_keys (caches (snd (install resolve net st))))"
  by (auto simp add: install_def cache_addAll_def Let_def caches_keys_update
      caches_open_distinct split: promise.splits)

lemma activate_distinct:
  "distinct (caches_keys (caches st)) \<Longrightarrow>
   distinct (caches_keys (caches (snd (activate st))))"
  by (simp add: activate_caches caches_keys_def distinct_map_filter)

text \<open>
  C5. Activation runs on the storage that installation left: its names are distinct and
  the current generation is among them. After the activation step the storage holds
  exactly one cache of the current name, with the content it had; every name that is
  left and starts with \<^verbatim>\<open>habit-tracker-\<close> is the current name, so the other
  generations are deleted; and the caches whose name does not start with the prefix are
  the same as before, in the same order.
\<close>

theorem activate_generation_exclusive:
  assumes "distinct (caches_keys (caches st))"
    and "CACHE_NAME \<in> set (caches_keys (caches st))"
  shows "fst (activate st) = Fulfilled ()
       \<and> length (filter (\<lambda>(n, c). n = CACHE_NAME) (caches (snd (activate st)))) = 1
       \<and> map_of (caches (snd (activate st))) CACHE_NAME = map_of (caches st) CACHE_NAME
       \<and> (\<forall>n \<in> set (caches_keys (caches (snd (activate st)))).
             startsWith n ''habit-tracker-'' \<longrightarrow> n = CACHE_NAME)
       \<and> filter (\<lambda>(n, c). \<not> startsWith n ''habit-tracker-'') (caches (snd (activate st)))
           = filter (\<lambda>(n, c). \<not> startsWith n ''habit-tracker-'') (caches st)"
proof -
  let ?cs' = "caches (snd (activate st))"
  have cs': "?cs' = filter (\<lambda>(m, c). \<not> is_old_cache m) (caches st)"
    by (rule activate_caches)
  have d: "distinct (map fst ?cs')"
    using assms(1) by (simp add: cs' caches_keys_def distinct_map_filter)
  have m: "CACHE_NAME \<in> set (map fst ?cs')"
    using assms(2) not_old_CACHE_NAME by (force simp add: cs' caches_keys_def)
  have one: "length (filter (\<lambda>(n, c). n = CACHE_NAME) ?cs') = 1"
    using d m by (rule one_cache_of_a_name)
  have cur: "map_of ?cs' CACHE_NAME = map_of (caches st) CACHE_NAME"
    unfolding cs' using not_old_CACHE_NAME by (rule map_of_filter_keep)
  have excl: "\<forall>n \<in> set (caches_keys ?cs'). startsWith n ''habit-tracker-'' \<longrightarrow> n = CACHE_NAME"
    by (auto simp add: cs' caches_keys_def is_old_cache_def)
  have other: "filter (\<lambda>(n, c). \<not> startsWith n ''habit-tracker-'') ?cs'
      = filter (\<lambda>(n, c). \<not> startsWith n ''habit-tracker-'') (caches st)"
    unfolding cs' filter_filter
    by (rule filter_cong) (auto simp add: is_old_cache_def)
  from one cur excl other show ?thesis by (simp add: activate_def Let_def)
qed

theorem activate_generation_exclusive_witness:
  "distinct (caches_keys [(''habit-tracker-v0'', []), (''fonts'', []), (''habit-tracker-v1'', [])])
   \<and> CACHE_NAME \<in> set (caches_keys [(''habit-tracker-v0'', []), (''fonts'', []), (''habit-tracker-v1'', [])])
   \<and> caches (snd (activate (storage
        [(''habit-tracker-v0'', []), (''fonts'', []), (''habit-tracker-v1'', [])])))
     = [(''fonts'', []), (''habit-tracker-v1'', [])]"
  using activate_generation_exclusive
    [of "storage [(''habit-tracker-v0'', []), (''fonts'', []), (''habit-tracker-v1'', [])]"]
  by (simp add: activate_def storage_def caches_keys_def caches_delete_def is_old_cache_def
      startsWith_def CACHE_NAME_def CACHE_VERSION_def Let_def)

subsection \<open>Installation\<close>

lemma addAll_fetch_Fulfilled:
  "addAll_fetch net qs = Fulfilled ps \<Longrightarrow>
   map fst ps = qs \<and> (\<forall>(q, r) \<in> set ps. net q = Fulfilled r)"
  by (induction qs arbitrary: ps) (auto split: promise.splits if_splits)

lemma addAll_fetch_ok:
  "list_all (fetch_ok net) qs \<Longrightarrow> \<exists>ps. addAll_fetch net qs = Fulfilled ps"
  by (induction qs) (auto simp add: fetch_ok_def split: promise.splits)

lemma addAll_fetch_failure:
  "q \<in> set qs \<Longrightarrow> \<not> fetch_ok net q \<Longrightarrow> \<exists>e. addAll_fetch net qs = Rejected e"
  by (induction qs) (auto simp add: fetch_ok_def split: promise.splits)

lemma put_all_snoc: "put_all c (ps @ [(q, r)]) = cache_put (put_all c ps) q r"
  by (simp add: put_all_def)

text \<open>
  After a batch of writes for different URLs, each request of the batch finds the
  response that was written for it.
\<close>

lemma put_all_match:
  assumes "distinct (map (\<lambda>p. url_key (url (fst p))) ps)"
    and "list_all (\<lambda>p. req_method (fst p) = ''GET'') ps"
    and "(q, r) \<in> set ps"
  shows "cache_match (put_all c ps) q = Some r"
  using assms
proof (induction ps rule: rev_induct)
  case Nil
  then show ?case by simp
next
  case (snoc p ps)
  obtain q' r' where p: "p = (q', r')" by (cases p)
  show ?case
  proof (cases "(q, r) \<in> set ps")
    case True
    with snoc.prems p have "url_key (url q) \<noteq> url_key (url q')" by force
    moreover from snoc True have "cache_match (put_all c ps) q = Some r" by simp
    ultimately show ?thesis by (simp add: p put_all_snoc cache_match_put_other)
  next
    case False
    with snoc.prems p have "q = q'" "r = r'" "req_method q' = ''GET''" by auto
    then show ?thesis by (simp add: p put_all_snoc cache_match_put_same)
  qed
qed

lemma map_of_update_cache:
  "map_of (update_cache n f cs) n = map_option f (map_of cs n)"
  by (induction cs) (auto simp add: update_cache_def)

lemma map_of_caches_open: "\<exists>c. map_of (caches_open n cs) n = Some c"
proof -
  have "n \<in> fst ` set (caches_open n cs)"
    using caches_keys_open [of n cs] by (simp add: caches_keys_def)
  then have "map_of (caches_open n cs) n \<noteq> None" by (simp add: map_of_eq_None_iff)
  then show ?thesis by blast
qed

lemma manifest_GET: "list_all (\<lambda>q. req_method q = ''GET'') (manifest_requests resolve)"
  by (simp add: manifest_requests_def new_Request_def list_all_iff)

lemma install_Rejected:
  assumes "fst (install resolve net st) = Rejected e"
  shows "caches (snd (install resolve net st)) = caches_open CACHE_NAME (caches st)
       \<and> skipped_waiting (snd (install resolve net st)) = skipped_waiting st"
  using assms
  by (auto simp add: install_def cache_addAll_def Let_def split: promise.splits if_splits)

lemma install_failure:
  assumes "q \<in> set (manifest_requests resolve)" and "\<not> fetch_ok net q"
  shows "\<exists>e. fst (install resolve net st) = Rejected e"
proof (cases "list_all http_scheme (manifest_requests resolve)")
  case True
  from assms obtain e where "addAll_fetch net (manifest_requests resolve) = Rejected e"
    using addAll_fetch_failure by blast
  with True show ?thesis
    by (simp add: install_def cache_addAll_def Let_def)
next
  case False
  then show ?thesis
    by (simp add: install_def cache_addAll_def Let_def)
qed

lemma install_success:
  assumes "list_all http_scheme (manifest_requests resolve)"
    and "distinct (map (\<lambda>q. url_key (url q)) (manifest_requests resolve))"
    and "list_all (fetch_ok net) (manifest_requests resolve)"
  shows "fst (install resolve net st) = Fulfilled ()"
proof -
  from assms(3) obtain ps where "addAll_fetch net (manifest_requests resolve) = Fulfilled ps"
    using addAll_fetch_ok by blast
  with assms(1,2) show ?thesis
    by (simp add: install_def cache_addAll_def Let_def)
qed

lemma install_Fulfilled:
  assumes "fst (install resolve net st) = Fulfilled u"
  shows "\<exists>c. map_of (caches (snd (install resolve net st))) CACHE_NAME = Some c
           \<and> (\<forall>q \<in> set (manifest_requests resolve).
                 \<exists>r. net q = Fulfilled r \<and> cache_match c q = Some r)
           \<and> skipped_waiting (snd (install resolve net st))"
proof -
  let ?qs = "manifest_requests resolve"
  let ?cs = "caches_open CACHE_NAME (caches st)"
  from assms obtain ps where ps: "addAll_fetch net ?qs = Fulfilled ps"
    and d: "distinct (map (\<lambda>q. url_key (url q)) ?qs)"
    and st': "caches (snd (install resolve net st))
                = update_cache CACHE_NAME (\<lambda>c. put_all c ps) ?cs"
    and sk: "skipped_waiting (snd (install resolve net st))"
    by (auto simp add: install_def cache_addAll_def Let_def split: promise.splits if_splits)
  from ps have fst_ps: "map fst ps = ?qs" and net: "\<forall>(q, r) \<in> set ps. net q = Fulfilled r"
    using addAll_fetch_Fulfilled by blast+
  from d fst_ps have d': "distinct (map (\<lambda>p. url_key (url (fst p))) ps)"
    by (metis (no_types, lifting) map_map comp_def map_eq_conv)
  have g: "list_all (\<lambda>p. req_method (fst p) = ''GET'') ps"
    unfolding list_all_iff
  proof
    fix p assume "p \<in> set ps"
    then have "fst p \<in> set (map fst ps)" by simp
    with fst_ps manifest_GET [of resolve] show "req_method (fst p) = ''GET''"
      by (simp add: list_all_iff)
  qed
  obtain c0 where c0: "map_of ?cs CACHE_NAME = Some c0"
    using map_of_caches_open by blast
  have cur: "map_of (caches (snd (install resolve net st))) CACHE_NAME = Some (put_all c0 ps)"
    by (simp add: st' map_of_update_cache c0)
  have "\<exists>r. net q = Fulfilled r \<and> cache_match (put_all c0 ps) q = Some r"
    if "q \<in> set ?qs" for q
  proof -
    from that fst_ps have "q \<in> fst ` set ps" by (metis set_map)
    then obtain r where qr: "(q, r) \<in> set ps" by auto
    with net have "net q = Fulfilled r" by auto
    moreover from d' g qr have "cache_match (put_all c0 ps) q = Some r" by (rule put_all_match)
    ultimately show ?thesis by blast
  qed
  with cur sk show ?thesis by blast
qed

text \<open>
  C6. Installation is all or nothing. A manifest request counts as fetched when the
  network answers it with an ok response that the cache accepts (\<open>fetch_ok\<close>).
  \<^item> If one manifest request is not fetched, the promise of the install step is rejected.
  \<^item> Whenever it is rejected, the storage is what it was but for the current
    generation having been opened (empty when it is new, unchanged when it existed): no
    part of the manifest is stored, and \<^verbatim>\<open>skipWaiting\<close> is not called.
  \<^item> Whenever it is fulfilled, the current generation answers every manifest request
    with the response the network gave for it, and \<^verbatim>\<open>skipWaiting\<close> was called.
  \<^item> If all manifest requests are fetched, and they resolve to different http(s) URLs, it
    is fulfilled.
\<close>

theorem install_all_or_nothing:
  "(q \<in> set (manifest_requests resolve) \<and> \<not> fetch_ok net q
      \<longrightarrow> (\<exists>e. fst (install resolve net st) = Rejected e))
   \<and> (fst (install resolve net st) = Rejected err
      \<longrightarrow> caches (snd (install resolve net st)) = caches_open CACHE_NAME (caches st)
          \<and> entries (snd (install resolve net st)) = entries st
          \<and> skipped_waiting (snd (install resolve net st)) = skipped_waiting st)
   \<and> (fst (install resolve net st) = Fulfilled ()
      \<longrightarrow> (\<exists>c. map_of (caches (snd (install resolve net st))) CACHE_NAME = Some c
             \<and> (\<forall>q \<in> set (manifest_requests resolve).
                   \<exists>r. net q = Fulfilled r \<and> cache_match c q = Some r))
          \<and> skipped_waiting (snd (install resolve net st)))
   \<and> (list_all http_scheme (manifest_requests resolve)
        \<and> distinct (map (\<lambda>q. url_key (url q)) (manifest_requests resolve))
        \<and> list_all (fetch_ok net) (manifest_requests resolve)
      \<longrightarrow> fst (install resolve net st) = Fulfilled ())"
proof (intro conjI impI)
  assume "q \<in> set (manifest_requests resolve) \<and> \<not> fetch_ok net q"
  then show "\<exists>e. fst (install resolve net st) = Rejected e"
    using install_failure by blast
next
  assume r: "fst (install resolve net st) = Rejected err"
  then show "caches (snd (install resolve net st)) = caches_open CACHE_NAME (caches st)"
    and "skipped_waiting (snd (install resolve net st)) = skipped_waiting st"
    using install_Rejected by blast+
  then show "entries (snd (install resolve net st)) = entries st"
    by (simp add: entries_def entries_open)
next
  assume f: "fst (install resolve net st) = Fulfilled ()"
  from install_Fulfilled [OF f]
  show "\<exists>c. map_of (caches (snd (install resolve net st))) CACHE_NAME = Some c
          \<and> (\<forall>q \<in> set (manifest_requests resolve).
                \<exists>r. net q = Fulfilled r \<and> cache_match c q = Some r)"
    and "skipped_waiting (snd (install resolve net st))"
    by blast+
next
  assume "list_all http_scheme (manifest_requests resolve)
        \<and> distinct (map (\<lambda>q. url_key (url q)) (manifest_requests resolve))
        \<and> list_all (fetch_ok net) (manifest_requests resolve)"
  then show "fst (install resolve net st) = Fulfilled ()"
    using install_success by blast
qed

lemma manifest_site:
  "manifest_requests resolve_site =
     [new_Request (site_url ''/index.html''),
      new_Request (site_url ''/manifest.json''),
      new_Request \<lparr>protocol = ''https:'', host = ''cdn.tailwindcss.com'', pathname = ''/'',
                   search = [], hash = []\<rparr>,
      new_Request \<lparr>protocol = ''https:'', host = ''cdn.jsdelivr.net'',
                   pathname = ''/npm/font-awesome@4.7.0/css/font-awesome.min.css'',
                   search = [], hash = []\<rparr>,
      new_Request \<lparr>protocol = ''https:'', host = ''cdn.jsdelivr.net'',
                   pathname = ''/npm/chart.js@4.4.8/dist/chart.umd.min.js'',
                   search = [], hash = []\<rparr>]"
  by (simp add: manifest_requests_def STATIC_CACHE_URLS_def resolve_site_def startsWith_def
      Let_def)

theorem install_all_or_nothing_witness:
  "fst (install resolve_site (online (page ''ok'')) (storage [])) = Fulfilled ()
   \<and> cache_match
        (the (map_of (caches (snd (install resolve_site (online (page ''ok'')) (storage []))))
                CACHE_NAME))
        (new_Request (site_url ''/manifest.json'')) = Some (page ''ok'')
   \<and> fst (install resolve_site manifest_missing (storage [])) = Rejected TypeError
   \<and> caches (snd (install resolve_site manifest_missing (storage []))) = [(CACHE_NAME, [])]"
proof -
  let ?q = "new_Request (site_url ''/manifest.json'')"
  have q: "?q \<in> set (manifest_requests resolve_site)"
    by (simp add: manifest_site)
  have s: "list_all http_scheme (manifest_requests resolve_site)"
    by (simp add: manifest_site new_Request_def site_url_def http_scheme_def)
  have d: "distinct (map (\<lambda>q. url_key (url q)) (manifest_requests resolve_site))"
    by (simp add: manifest_site new_Request_def site_url_def url_key_def)
  have f: "list_all (fetch_ok (online (page ''ok''))) (manifest_requests resolve_site)"
    by (simp add: list_all_iff fetch_ok_def online_def page_def response_ok_def vary_star_def)
  have n: "\<not> fetch_ok manifest_missing ?q"
    by (simp add: fetch_ok_def manifest_missing_def new_Request_def site_url_def)
  note ok = install_all_or_nothing [of ?q resolve_site "online (page ''ok'')" "storage []" TypeError]
  note ko = install_all_or_nothing [of ?q resolve_site manifest_missing "storage []" TypeError]
  from ok s d f have 1: "fst (install resolve_site (online (page ''ok'')) (storage [])) = Fulfilled ()"
    by blast
  with ok q have 2: "cache_match
        (the (map_of (caches (snd (install resolve_site (online (page ''ok'')) (storage []))))
                CACHE_NAME)) ?q = Some (page ''ok'')"
    by (auto simp add: online_def)
  from ko q n obtain e where e: "fst (install resolve_site manifest_missing (storage [])) = Rejected e"
    by blast
  then have 3: "fst (install resolve_site manifest_missing (storage [])) = Rejected TypeError"
    by (auto simp add: install_def cache_addAll_def Let_def manifest_site manifest_missing_def
        new_Request_def site_url_def split: promise.splits if_splits prod.splits)
  with ko have 4: "caches (snd (install resolve_site manifest_missing (storage []))) = [(CACHE_NAME, [])]"
    by (simp add: storage_def caches_open_def caches_keys_def)
  from 1 2 3 4 show ?thesis by blast
qed

subsection \<open>The application shell stays in the current generation\<close>

lemma in_current_generation_match:
  "in_current_generation cs k \<Longrightarrow> caches_match cs k \<noteq> None"
  by (induction cs) (auto simp add: in_current_generation_def split: option.splits)

lemma cache_match_GET: "cache_match c k = Some r \<Longrightarrow> req_method k = ''GET''"
  by (induction c) (auto simp add: request_matches_def split: if_splits)

lemma cache_match_put_keeps:
  assumes "cache_match c k \<noteq> None"
  shows "cache_match (cache_put c q r) k \<noteq> None"
proof (cases "request_matches k q")
  case True
  then show ?thesis
    by (simp add: cache_put_def cache_match_append split: option.split)
next
  case False
  have "request_matches q e \<Longrightarrow> \<not> request_matches k e" for e
    using False by (auto simp add: request_matches_def same_url_def)
  then have "cache_match (filter (\<lambda>(e, v). \<not> request_matches q e) c) k = cache_match c k"
    by (rule cache_match_filter_other)
  with assms show ?thesis
    by (auto simp add: cache_put_def cache_match_append split: option.split)
qed

lemma in_current_generation_open:
  "in_current_generation cs k \<Longrightarrow> in_current_generation (caches_open n cs) k"
  by (auto simp add: in_current_generation_def caches_open_def)

lemma in_current_generation_put:
  "in_current_generation cs k \<Longrightarrow>
   in_current_generation (update_cache CACHE_NAME (\<lambda>c. cache_put c q r) cs) k"
proof -
  assume "in_current_generation cs k"
  then obtain c where c: "(CACHE_NAME, c) \<in> set cs" and m: "cache_match c k \<noteq> None"
    by (auto simp add: in_current_generation_def list_ex_iff)
  from c have "(CACHE_NAME, cache_put c q r)
      \<in> set (update_cache CACHE_NAME (\<lambda>c. cache_put c q r) cs)"
    by (force simp add: update_cache_def)
  moreover from m have "cache_match (cache_put c q r) k \<noteq> None"
    by (rule cache_match_put_keeps)
  ultimately show ?thesis
    by (auto simp add: in_current_generation_def list_ex_iff)
qed

lemma open_and_put_keeps:
  "in_current_generation (caches st) k \<Longrightarrow> in_current_generation (caches (open_and_put q r st)) k"
  by (simp add: open_and_put_def Let_def in_current_generation_open in_current_generation_put)

text \<open>
  A request that the current generation answers is still answered by it after any fetch
  event and after activation.
\<close>

lemma fetch_listener_keeps:
  "in_current_generation (caches st) k \<Longrightarrow>
   in_current_generation (caches (snd (fetch_listener resolve net q st))) k"
  by (auto simp add: fetch_listener_def cacheFirst_def networkFirst_def Let_def do_fetch_def
      open_and_put_keeps split: option.splits promise.splits)

lemma activate_keeps:
  "in_current_generation (caches st) k \<Longrightarrow>
   in_current_generation (caches (snd (activate st))) k"
  using not_old_CACHE_NAME
  by (auto simp add: activate_caches in_current_generation_def list_ex_iff)

text \<open>A fulfilled installation leaves the application shell in the current generation.\<close>

lemma install_caches_shell:
  assumes "fst (install resolve net st) = Fulfilled u"
  shows "in_current_generation (caches (snd (install resolve net st)))
           (new_Request (resolve ''./index.html''))"
proof -
  let ?k = "new_Request (resolve ''./index.html'')"
  have "?k \<in> set (manifest_requests resolve)"
    by (simp add: manifest_requests_def STATIC_CACHE_URLS_def)
  with install_Fulfilled [OF assms] obtain c r
    where "map_of (caches (snd (install resolve net st))) CACHE_NAME = Some c"
      and "cache_match c ?k = Some r"
    by blast
  then have "(CACHE_NAME, c) \<in> set (caches (snd (install resolve net st)))"
    and "cache_match c ?k \<noteq> None"
    by (auto dest: map_of_SomeD)
  then show ?thesis
    by (auto simp add: in_current_generation_def list_ex_iff)
qed

section \<open>The push listener\<close>

lemma or_default_None: "or_default None d = d"
  by (simp add: or_default_def)

lemma or_default_Some: "or_default (Some v) d = (if truthy v then v else d)"
  by (simp add: or_default_def)

text \<open>
  C9, as claimed: whenever the payload parses as JSON a notification is shown, and a field
  that is present is the one shown. The JSON text \<^verbatim>\<open>null\<close> parses, and reading
  \<^verbatim>\<open>data.body\<close> of it throws: the error is caught and nothing is shown. In the payload
  \<^verbatim>\<open>{"title": ""}\<close> the title is present, and the notification has the default title.
\<close>

theorem push_null_and_empty_title:
  "push_listener (Some (Parses JNull)) = Caught TypeError
   \<and> json_member (JObject [(''title'', JString '''')]) ''title'' = Some (JString '''')
   \<and> push_listener (Some (Parses (JObject [(''title'', JString '''')])))
     = ShowNotification (JString default_title)
         \<lparr>opt_body = JString default_body,
          opt_icon = ''./icons/icon-192x192.svg'',
          opt_badge = ''./icons/icon-72x72.svg'',
          opt_data_url = JString default_url,
          opt_actions =
            [\<lparr>action = ''checkin'', title = checkin_title\<rparr>,
             \<lparr>action = ''later'', title = later_title\<rparr>]\<rparr>"
  by (simp add: push_listener_def get_property_def or_default_def)

text \<open>
  C9, amended. A payload that does not parse, and one that parses to \<^verbatim>\<open>null\<close>, end in
  the \<^verbatim>\<open>catch\<close> block: the error is caught and no notification is shown. For every
  other JSON value \<^verbatim>\<open>showNotification\<close> is called. Title, body and target URL are the
  payload's members of that name when they are there and truthy (not \<^verbatim>\<open>""\<close>,
  \<^verbatim>\<open>0\<close>, \<^verbatim>\<open>false\<close> or \<^verbatim>\<open>null\<close>) and the fixed defaults otherwise; the two
  actions are \<^verbatim>\<open>checkin\<close> and \<^verbatim>\<open>later\<close>.
\<close>

theorem push_listener_payload:
  "push_listener (Some Malformed) = Caught SyntaxError
   \<and> push_listener (Some (Parses JNull)) = Caught TypeError
   \<and> (data \<noteq> JNull \<longrightarrow>
        (\<exists>options.
           push_listener (Some (Parses data))
             = ShowNotification
                 (case json_member data ''title'' of
                    Some v \<Rightarrow> if truthy v then v else JString default_title
                  | None \<Rightarrow> JString default_title)
                 options
           \<and> opt_body options
               = (case json_member data ''body'' of
                    Some v \<Rightarrow> if truthy v then v else JString default_body
                  | None \<Rightarrow> JString default_body)
           \<and> opt_data_url options
               = (case json_member data ''url'' of
                    Some v \<Rightarrow> if truthy v then v else JString default_url
                  | None \<Rightarrow> JString default_url)
           \<and> map action (opt_actions options) = [''checkin'', ''later'']))"
  by (simp add: push_listener_def get_property_def or_default_def)

theorem push_listener_payload_witness:
  "JObject [(''title'', JString ''Reminder''), (''body'', JString ''Time to check in''),
            (''url'', JString ''./index.html'')] \<noteq> JNull
   \<and> push_listener (Some (Parses (JObject
        [(''title'', JString ''Reminder''), (''body'', JString ''Time to check in''),
         (''url'', JString ''./index.html'')])))
     = ShowNotification (JString ''Reminder'')
         \<lparr>opt_body = JString ''Time to check in'',
          opt_icon = ''./icons/icon-192x192.svg'',
          opt_badge = ''./icons/icon-72x72.svg'',
          opt_data_url = JString ''./index.html'',
          opt_actions =
            [\<lparr>action = ''checkin'', title = checkin_title\<rparr>,
             \<lparr>action = ''later'', title = later_title\<rparr>]\<rparr>"
  using push_listener_payload [of "JObject
        [(''title'', JString ''Reminder''), (''body'', JString ''Time to check in''),
         (''url'', JString ''./index.html'')]"]
  by (simp add: push_listener_def get_property_def or_default_def)

text \<open>
  C10. A push event without data (\<^verbatim>\<open>event.data\<close> is \<^verbatim>\<open>null\<close>) makes the listener
  return at once: no notification is requested and no error is raised or caught.
\<close>

theorem push_without_data: "push_listener None = ReturnedEarly"
  by (simp add: push_listener_def)

end
